theory Spec2Isabelle
  imports Complex_Main "HOL-Library.Sublist" "HOL-Library.Multiset"
begin

section \<open>Strings and case folding\<close>

text \<open>
  A Python \<open>str\<close> is modelled as a \<open>string\<close> whose characters are the code points
  below 256 (ASCII and Latin-1). On these \<open>str.lower()\<close> works character by character:
  it adds 32 to \<open>A\<close>..\<open>Z\<close> (65..90) and to the capital letters 192..222 other than the
  multiplication sign 215, and leaves every other character alone.
\<close>

definition lower_char :: "char \<Rightarrow> char" where
  "lower_char c =
     (let n = (of_char c :: nat)
      in if (65 \<le> n \<and> n \<le> 90) \<or> (192 \<le> n \<and> n \<le> 222 \<and> n \<noteq> 215)
         then char_of (n + 32) else c)"

definition lower :: "string \<Rightarrow> string" where
  "lower s = map lower_char s"

section \<open>Exceptions and JSON values\<close>

text \<open>
  Every Python exception the program can meet is a subclass of \<open>Exception\<close>; an
  operation that may raise returns \<open>exn + 'a\<close>, with \<open>Inl\<close> for the exception raised.
\<close>

datatype exn =
    RequestValidationError
  | ValidationError
  | HTTPException nat string
  | OperationalError
  | StringDataRightTruncation
  | InvalidEscapeSequence
  | ValueError
  | IndexError
  | KeyError
  | TypeError
  | AttributeError
  | JSONDecodeError
  | RequestException
  | CloudinaryError

text \<open>
  What \<open>response.json()\<close> can return. An object is an association list with one
  binding per key, read with \<open>map_of\<close>.
\<close>

datatype json =
    JNull
  | JBool bool
  | JInt int
  | JFloat real
  | JStr string
  | JList "json list"
  | JDict "(string \<times> json) list"

text \<open>\<open>x[i]\<close> for an integer \<open>i\<close>: lists and strings are indexed (a negative index counts
  from the end), an object has no integer key, anything else is not subscriptable.\<close>

definition index_list :: "'a list \<Rightarrow> int \<Rightarrow> exn + 'a" where
  "index_list xs i =
     (if 0 \<le> i \<and> i < int (length xs) then Inr (xs ! nat i)
      else if i < 0 \<and> 0 \<le> int (length xs) + i then Inr (xs ! nat (int (length xs) + i))
      else Inl IndexError)"

fun getitem_int :: "json \<Rightarrow> int \<Rightarrow> exn + json" where
  "getitem_int (JList xs) i = index_list xs i"
| "getitem_int (JStr s) i =
     (case index_list s i of Inl e \<Rightarrow> Inl e | Inr c \<Rightarrow> Inr (JStr [c]))"
| "getitem_int (JDict d) i = Inl KeyError"
| "getitem_int v i = Inl TypeError"

text \<open>\<open>x[k]\<close> for a string \<open>k\<close>: only an object is indexed by a string.\<close>

fun getitem_str :: "json \<Rightarrow> string \<Rightarrow> exn + json" where
  "getitem_str (JDict d) k = (case map_of d k of None \<Rightarrow> Inl KeyError | Some v \<Rightarrow> Inr v)"
| "getitem_str v k = Inl TypeError"

text \<open>\<open>k in x\<close> for a string \<open>k\<close>: a key of an object, a substring of a string, an
  element of a list; \<open>None\<close>, booleans and numbers are not iterable.\<close>

fun contains :: "string \<Rightarrow> json \<Rightarrow> exn + bool" where
  "contains k (JDict d) = Inr (map_of d k \<noteq> None)"
| "contains k (JStr s) = Inr (sublist k s)"
| "contains k (JList xs) = Inr (JStr k \<in> set xs)"
| "contains k v = Inl TypeError"

text \<open>\<open>x.lower()\<close>: only a string has the method.\<close>

fun lower_method :: "json \<Rightarrow> exn + string" where
  "lower_method (JStr s) = Inr (lower s)"
| "lower_method v = Inl AttributeError"

fun is_dict :: "json \<Rightarrow> bool" where
  "is_dict (JDict d) = True"
| "is_dict v = False"

fun is_list :: "json \<Rightarrow> bool" where
  "is_list (JList xs) = True"
| "is_list v = False"

section \<open>The Auto-Tagger\<close>

record payload =
  inputs :: string
  candidate_labels :: "string list"
  multi_label :: bool

definition labels :: "string list" where
  "labels =
     [''electronics'', ''clothing'', ''accessories'', ''documents'', ''books'',
      ''sports_equipment'', ''toys'', ''keys'', ''tools'',
      ''wallets_and_purses'', ''bags_and_backpacks'', ''jewelry'', ''watches'',
      ''glasses_and_sunglasses'', ''umbrellas'', ''cosmetics_and_makeup'',
      ''id_cards_and_badges'', ''credit_cards'', ''driver_license'', ''passport'', ''tickets'',
      ''stationery'', ''notebooks'', ''laptops_and_tablets'', ''usb_drives'',
      ''calculators'', ''school_supplies'', ''office_supplies'',
      ''bicycles'', ''helmets'', ''vehicle_keys'',
      ''food_containers'', ''bottles'', ''miscellaneous'']"

definition tag_payload :: "string \<Rightarrow> string \<Rightarrow> payload" where
  "tag_payload item_name description =
     \<lparr>inputs = item_name @ '' '' @ description,
      candidate_labels = labels, multi_label = False\<rparr>"

text \<open>
  The body of the \<open>try\<close> block of \<open>auto_tag_item\<close> once \<open>response.json()\<close> has returned
  \<open>result\<close>: the two recognised shapes in the order of the \<open>if\<close>/\<open>elif\<close>, then the
  \<open>else\<close>. Each subscript, each \<open>in\<close> and each \<open>.lower()\<close> may raise.
\<close>

definition tag_of_result :: "json \<Rightarrow> exn + string" where
  "tag_of_result result =
     (if is_dict result \<and> contains ''labels'' result = Inr True then
        (case getitem_str result ''labels'' of
           Inl e \<Rightarrow> Inl e
         | Inr ls \<Rightarrow>
             (case getitem_int ls 0 of Inl e \<Rightarrow> Inl e | Inr l \<Rightarrow> lower_method l))
      else if is_list result then
        (case getitem_int result 0 of
           Inl e \<Rightarrow> Inl e
         | Inr first \<Rightarrow>
             (case contains ''label'' first of
                Inl e \<Rightarrow> Inl e
              | Inr True \<Rightarrow>
                  (case getitem_str first ''label'' of
                     Inl e \<Rightarrow> Inl e
                   | Inr l \<Rightarrow> lower_method l)
              | Inr False \<Rightarrow> Inr ''miscellaneous''))
      else Inr ''miscellaneous'')"

text \<open>
  The whole \<open>try\<close> block: \<open>reply\<close> is what \<open>requests.post\<close> followed by
  \<open>response.json()\<close> gives, an exception of either call or the parsed body.
\<close>

definition tag_attempt :: "exn + json \<Rightarrow> exn + string" where
  "tag_attempt reply = (case reply of Inl e \<Rightarrow> Inl e | Inr result \<Rightarrow> tag_of_result result)"

section \<open>The outside world\<close>

text \<open>
  \<open>env\<close> is what the outside world answers during one request: whether
  \<open>psycopg2.connect\<close> succeeds, the database's \<open>CURRENT_TIMESTAMP\<close>, the classifier
  endpoint (\<open>requests.post\<close> followed by \<open>response.json()\<close>) and
  \<open>cloudinary.uploader.upload\<close>, whose result is a dictionary of strings.
  \<open>world\<close> is the state the program changes: the rows of table \<open>items\<close> with the
  next value of its \<open>SERIAL\<close> sequence, and a log of the calls made to the image host
  and to the classifier.
\<close>

record env =
  db_up :: bool
  current_timestamp :: nat
  classifier :: "payload \<Rightarrow> exn + json"
  cloudinary_upload :: "string \<Rightarrow> exn + (string \<times> string) list"

record items_row =
  col_id :: int
  col_item_type :: string
  col_item_name :: string
  col_description :: "string option"
  col_location :: string
  col_contact_info :: string
  col_image_path :: "string option"
  col_tag :: "string option"
  col_created_at :: nat

record world =
  items :: "items_row list"
  items_id_seq :: int
  upload_calls :: "string list"
  classifier_calls :: "payload list"

text \<open>
  \<open>auto_tag_item\<close>: one POST to the classifier, and the \<open>except Exception\<close> handler
  turns every exception of the \<open>try\<close> block into the fallback label.
\<close>

definition auto_tag_item :: "env \<Rightarrow> string \<Rightarrow> string \<Rightarrow> world \<Rightarrow> string \<times> world" where
  "auto_tag_item e item_name description w =
     (let p = tag_payload item_name description;
          w' = w\<lparr>classifier_calls := classifier_calls w @ [p]\<rparr>
      in case tag_attempt (classifier e p) of
           Inl x \<Rightarrow> (''miscellaneous'', w')
         | Inr t \<Rightarrow> (t, w'))"

section \<open>The Image Host Adapter\<close>

record upload_file =
  filename :: "string option"
  content :: string

text \<open>Truthiness of an optional string: \<open>None\<close> and \<open>""\<close> are false.\<close>

fun truthy :: "string option \<Rightarrow> bool" where
  "truthy None = False"
| "truthy (Some s) = (s \<noteq> [])"

text \<open>\<open>d.get(k, default)\<close> on a dictionary of strings.\<close>

definition dict_get :: "(string \<times> string) list \<Rightarrow> string \<Rightarrow> string \<Rightarrow> string" where
  "dict_get d k dflt = (case map_of d k of None \<Rightarrow> dflt | Some v \<Rightarrow> v)"

definition save_uploaded_image :: "env \<Rightarrow> upload_file \<Rightarrow> world \<Rightarrow> (exn + string) \<times> world" where
  "save_uploaded_image e f w =
     (if truthy (filename f) then
        (let w' = w\<lparr>upload_calls := upload_calls w @ [content f]\<rparr>
         in case cloudinary_upload e (content f) of
              Inl x \<Rightarrow> (Inl x, w')
            | Inr upload_result \<Rightarrow>
                (Inr (dict_get upload_result ''secure_url'' []), w'))
      else (Inr [], w))"

section \<open>Data schema and form validation\<close>

record ItemCreate =
  item_type :: string
  item_name :: string
  description :: "string option"
  location :: string
  contact_info :: string
  image_url :: "string option"
  tag :: "string option"

text \<open>
  The constructor \<open>cls(...)\<close> called by \<open>as_form\<close>: pydantic checks the declared
  constraints and raises \<open>ValidationError\<close>; \<open>image_url\<close> and \<open>tag\<close> keep their
  default \<open>None\<close>.
\<close>

definition as_form ::
  "string \<Rightarrow> string \<Rightarrow> string option \<Rightarrow> string \<Rightarrow> string \<Rightarrow> exn + ItemCreate" where
  "as_form ty name descr loc contact =
     (if (ty = ''lost'' \<or> ty = ''found'')
         \<and> 2 \<le> length name \<and> length name \<le> 100
         \<and> (case descr of None \<Rightarrow> True | Some d \<Rightarrow> length d \<le> 500)
         \<and> 2 \<le> length loc
      then Inr \<lparr>item_type = ty, item_name = name, description = descr, location = loc,
                contact_info = contact, image_url = None, tag = None\<rparr>
      else Inl ValidationError)"

text \<open>
  The form fields of a request to \<open>/submit-item\<close>: \<open>None\<close> when the request does
  not carry the field. FastAPI reads a \<open>Form\<close> parameter whose value is the empty
  string as a field that is missing (\<open>form_value\<close>): a required field
  (\<open>Form(...)\<close>) then makes it answer with \<open>RequestValidationError\<close> without calling
  \<open>as_form\<close>, and \<open>description\<close> takes its default \<open>None\<close>. Otherwise \<open>as_form\<close>
  runs and its exception, if any, leaves the dependency as it is.
\<close>

record submit_form =
  form_item_type :: "string option"
  form_item_name :: "string option"
  form_description :: "string option"
  form_location :: "string option"
  form_contact_info :: "string option"

fun form_value :: "string option \<Rightarrow> string option" where
  "form_value None = None"
| "form_value (Some s) = (if s = [] then None else Some s)"

definition depends_as_form :: "submit_form \<Rightarrow> exn + ItemCreate" where
  "depends_as_form f =
     (case form_value (form_item_type f) of
        None \<Rightarrow> Inl RequestValidationError
      | Some ty \<Rightarrow>
       (case form_value (form_item_name f) of
          None \<Rightarrow> Inl RequestValidationError
        | Some name \<Rightarrow>
         (case form_value (form_location f) of
            None \<Rightarrow> Inl RequestValidationError
          | Some loc \<Rightarrow>
           (case form_value (form_contact_info f) of
              None \<Rightarrow> Inl RequestValidationError
            | Some contact \<Rightarrow>
                as_form ty name (form_value (form_description f)) loc contact))))"

section \<open>The Storage Adapter\<close>

definition get_connection :: "env \<Rightarrow> exn + unit" where
  "get_connection e = (if db_up e then Inr () else Inl OperationalError)"

text \<open>
  psycopg2 refuses a string parameter that contains the character NUL. PostgreSQL stores a
  string in a \<open>VARCHAR(n)\<close> column when it has at most \<open>n\<close> characters or when all the
  characters after the first \<open>n\<close> are spaces (it then keeps the first \<open>n\<close>); otherwise
  the statement fails.
\<close>

definition has_nul :: "string \<Rightarrow> bool" where
  "has_nul s = (CHR 0x00 \<in> set s)"

fun opt_has_nul :: "string option \<Rightarrow> bool" where
  "opt_has_nul None = False"
| "opt_has_nul (Some s) = has_nul s"

definition fits :: "nat \<Rightarrow> string \<Rightarrow> bool" where
  "fits n s = (length s \<le> n \<or> list_all (\<lambda>c. c = CHR '' '') (drop n s))"

fun opt_fits :: "nat \<Rightarrow> string option \<Rightarrow> bool" where
  "opt_fits n None = True"
| "opt_fits n (Some s) = fits n s"

definition varchar :: "nat \<Rightarrow> string \<Rightarrow> string" where
  "varchar n s = take n s"

text \<open>
  The \<open>INSERT\<close> of \<open>submit_item\<close> with its \<open>commit\<close>: \<open>id\<close> and \<open>created_at\<close> take
  their defaults, \<open>image_path\<close> receives \<open>item.image_url\<close>. The sequence is advanced
  when the row is stored.
\<close>

definition insert_item :: "env \<Rightarrow> ItemCreate \<Rightarrow> world \<Rightarrow> exn + world" where
  "insert_item e item w =
     (case get_connection e of
        Inl x \<Rightarrow> Inl x
      | Inr u \<Rightarrow>
          if has_nul (item_type item) \<or> has_nul (item_name item)
             \<or> opt_has_nul (description item) \<or> has_nul (location item)
             \<or> has_nul (contact_info item) \<or> opt_has_nul (image_url item)
             \<or> opt_has_nul (tag item)
          then Inl ValueError
          else if fits 20 (item_type item) \<and> fits 100 (item_name item)
                  \<and> fits 255 (location item) \<and> fits 100 (contact_info item)
                  \<and> opt_fits 50 (tag item)
          then Inr (w\<lparr>items := items w @
                      [\<lparr>col_id = items_id_seq w,
                        col_item_type = varchar 20 (item_type item),
                        col_item_name = varchar 100 (item_name item),
                        col_description = description item,
                        col_location = varchar 255 (location item),
                        col_contact_info = varchar 100 (contact_info item),
                        col_image_path = image_url item,
                        col_tag = map_option (varchar 50) (tag item),
                        col_created_at = current_timestamp e\<rparr>],
                    items_id_seq := items_id_seq w + 1\<rparr>)
          else Inl StringDataRightTruncation)"

section \<open>Responses\<close>

datatype sqlval = Null | IntV int | TextV string | TimestampV nat

datatype template_context =
    Items_Search "(string \<times> sqlval) list list" string
  | Item "(string \<times> sqlval) list"

datatype response =
    TemplateResponse string template_context
  | RedirectResponse string nat

text \<open>
  The status FastAPI answers with: that of the response; for an exception that leaves
  the route, the status of an \<open>HTTPException\<close>, 422 for FastAPI's own
  \<open>RequestValidationError\<close>, and 500 for any other exception, none of which has a
  handler in the application.
\<close>

fun http_status :: "exn + response \<Rightarrow> nat" where
  "http_status (Inr (RedirectResponse url code)) = code"
| "http_status (Inr (TemplateResponse name ctx)) = 200"
| "http_status (Inl (HTTPException code detail)) = code"
| "http_status (Inl RequestValidationError) = 422"
| "http_status (Inl x) = 500"

section \<open>The Intake Pipeline\<close>

record submit_request =
  form :: submit_form
  image :: "upload_file option"

fun or_empty :: "string option \<Rightarrow> string" where
  "or_empty None = []"
| "or_empty (Some s) = s"

text \<open>
  \<open>submit_item\<close>. The dependency is resolved before the body runs. The local
  \<open>image_url\<close> is stored in the item only inside the \<open>if\<close>; the \<open>INSERT\<close> reads
  \<open>item.image_url\<close>.
\<close>

definition submit_item :: "env \<Rightarrow> submit_request \<Rightarrow> world \<Rightarrow> (exn + response) \<times> world" where
  "submit_item e req w =
     (case depends_as_form (form req) of
        Inl x \<Rightarrow> (Inl x, w)
      | Inr item \<Rightarrow>
          (case (case image req of
                   None \<Rightarrow> (Inr item, w)
                 | Some f \<Rightarrow>
                     if truthy (filename f) then
                       (case save_uploaded_image e f w of
                          (Inl x, w1) \<Rightarrow> (Inl x, w1)
                        | (Inr url, w1) \<Rightarrow> (Inr (item\<lparr>image_url := Some url\<rparr>), w1))
                     else (Inr item, w)) of
             (Inl x, w1) \<Rightarrow> (Inl x, w1)
           | (Inr item1, w1) \<Rightarrow>
               (case auto_tag_item e (item_name item1) (or_empty (description item1)) w1 of
                  (t, w2) \<Rightarrow>
                    (case insert_item e (item1\<lparr>tag := Some t\<rparr>) w2 of
                       Inl x \<Rightarrow> (Inl x, w2)
                     | Inr w3 \<Rightarrow> (Inr (RedirectResponse ''/view-items'' 303), w3)))))"

section \<open>The read queries\<close>

text \<open>
  A pattern of \<open>LIKE\<close>: \<open>%\<close> stands for any string, \<open>_\<close> for any one character, and
  a backslash makes the character after it literal. PostgreSQL rejects a pattern that
  ends in a lone backslash when the match reaches it; here the pattern is rejected as a
  whole, which is the same for the patterns \<open>view_items\<close> builds: they end in \<open>%\<close>.
\<close>

datatype like_token = Any_String | Any_Char | Literal char

fun like_tokens :: "string \<Rightarrow> exn + like_token list" where
  "like_tokens [] = Inr []"
| "like_tokens [c] =
     (if c = CHR 0x5C then Inl InvalidEscapeSequence
      else Inr [if c = CHR ''%'' then Any_String
                else if c = CHR ''_'' then Any_Char else Literal c])"
| "like_tokens (c # q # qs) =
     (if c = CHR 0x5C then
        (case like_tokens qs of Inl x \<Rightarrow> Inl x | Inr ts \<Rightarrow> Inr (Literal q # ts))
      else
        (case like_tokens (q # qs) of
           Inl x \<Rightarrow> Inl x
         | Inr ts \<Rightarrow>
             Inr ((if c = CHR ''%'' then Any_String
                   else if c = CHR ''_'' then Any_Char else Literal c) # ts)))"

fun like_match :: "like_token list \<Rightarrow> string \<Rightarrow> bool" where
  "like_match [] t = (t = [])"
| "like_match (Any_String # ps) [] = like_match ps []"
| "like_match (Any_String # ps) (c # cs) =
     (like_match ps (c # cs) \<or> like_match (Any_String # ps) cs)"
| "like_match (Any_Char # ps) [] = False"
| "like_match (Any_Char # ps) (c # cs) = like_match ps cs"
| "like_match (Literal q # ps) [] = False"
| "like_match (Literal q # ps) (c # cs) = (q = c \<and> like_match ps cs)"

text \<open>\<open>txt ILIKE pat\<close> compares without regard to case: both sides are folded with
  \<open>lower\<close> (the folding of the database is taken to be that of \<open>str.lower()\<close>).\<close>

definition ilike :: "string \<Rightarrow> string \<Rightarrow> exn + bool" where
  "ilike txt pat =
     (case like_tokens (lower pat) of
        Inl x \<Rightarrow> Inl x
      | Inr ts \<Rightarrow> Inr (like_match ts (lower txt)))"

text \<open>
  The pattern is a parameter of \<open>cursor.execute\<close>: as in the \<open>INSERT\<close>, psycopg2
  raises \<open>ValueError\<close> for a string that contains NUL and sends nothing.

  \<open>ORDER BY created_at DESC\<close>. The order of rows with equal \<open>created_at\<close> is up to
  the database; the list \<open>items\<close> of the world is in any order, so that the reversed
  stable sort stands for every such choice.
\<close>

definition order_by_created_at_desc :: "items_row list \<Rightarrow> items_row list" where
  "order_by_created_at_desc rows = rev (sort_key col_created_at rows)"

definition select_items :: "items_row list \<Rightarrow> items_row list" where
  "select_items rows = order_by_created_at_desc rows"

definition select_items_where :: "string \<Rightarrow> items_row list \<Rightarrow> exn + items_row list" where
  "select_items_where pat rows =
     (if has_nul pat then Inl ValueError
      else
        (case like_tokens (lower pat) of
           Inl x \<Rightarrow> Inl x
         | Inr ts \<Rightarrow>
             Inr (order_by_created_at_desc
                    (filter (\<lambda>r. ilike (col_item_name r) pat = Inr True
                                   \<or> ilike (col_location r) pat = Inr True) rows))))"

text \<open>The columns of the table in the order of \<open>CREATE TABLE\<close>, which is the order of
  \<open>SELECT *\<close>, of \<open>cursor.description\<close> and of the list written in
  \<open>view_item_detail\<close>; \<open>row_tuple\<close> is a fetched row and \<open>row_dict\<close> is
  \<open>dict(zip(columns, row))\<close>.\<close>

definition columns :: "string list" where
  "columns = [''id'', ''item_type'', ''item_name'', ''description'', ''location'',
              ''contact_info'', ''image_path'', ''tag'', ''created_at'']"

fun opt_text :: "string option \<Rightarrow> sqlval" where
  "opt_text None = Null"
| "opt_text (Some s) = TextV s"

definition row_tuple :: "items_row \<Rightarrow> sqlval list" where
  "row_tuple r =
     [IntV (col_id r), TextV (col_item_type r), TextV (col_item_name r),
      opt_text (col_description r), TextV (col_location r), TextV (col_contact_info r),
      opt_text (col_image_path r), opt_text (col_tag r), TimestampV (col_created_at r)]"

definition row_dict :: "items_row \<Rightarrow> (string \<times> sqlval) list" where
  "row_dict r = zip columns (row_tuple r)"

definition view_items :: "env \<Rightarrow> string \<Rightarrow> world \<Rightarrow> exn + response" where
  "view_items e search w =
     (case get_connection e of
        Inl x \<Rightarrow> Inl x
      | Inr u \<Rightarrow>
          (case (if search \<noteq> [] then select_items_where (''%'' @ search @ ''%'') (items w)
                 else Inr (select_items (items w))) of
             Inl x \<Rightarrow> Inl x
           | Inr rows \<Rightarrow>
               Inr (TemplateResponse ''items.html''
                      (Items_Search (map row_dict rows) search))))"

definition view_item_detail :: "env \<Rightarrow> int \<Rightarrow> world \<Rightarrow> exn + response" where
  "view_item_detail e item_id w =
     (case get_connection e of
        Inl x \<Rightarrow> Inl x
      | Inr u \<Rightarrow>
          (case find (\<lambda>r. col_id r = item_id) (items w) of
             None \<Rightarrow> Inl (HTTPException 404 ''Item not found'')
           | Some r \<Rightarrow>
               Inr (TemplateResponse ''item_detail.html'' (Item (zip columns (row_tuple r))))))"

section \<open>Notions of the specification\<close>

text \<open>
  The two response shapes the specification names: an object with a \<open>labels\<close> field, or
  a list whose first element is an object with a \<open>label\<close> field. A reply is faulty when
  the call raised or the body has neither shape.
\<close>

fun has_field :: "string \<Rightarrow> json \<Rightarrow> bool" where
  "has_field k (JDict d) = (map_of d k \<noteq> None)"
| "has_field k v = False"

fun recognised_shape :: "json \<Rightarrow> bool" where
  "recognised_shape (JDict d) = has_field ''labels'' (JDict d)"
| "recognised_shape (JList (x # xs)) = has_field ''label'' x"
| "recognised_shape v = False"

fun faulty_reply :: "exn + json \<Rightarrow> bool" where
  "faulty_reply (Inl x) = True"
| "faulty_reply (Inr r) = (\<not> recognised_shape r)"

text \<open>A submission without an image: no file part, or a file without a file name.\<close>

text \<open>
  The top label of a reply, in the words of the specification: the first element of the
  \<open>labels\<close> field of an object, or the \<open>label\<close> field of the first element of a list,
  when that is a string. \<open>reply_label\<close> is the tag the specification gives a reply: the
  top label in lower case, or the fallback label when the call raised or there is no top
  label. A reply honours the candidates when its top label, if it has one, is one of the
  candidate labels up to case.
\<close>

fun first_element :: "json \<Rightarrow> json option" where
  "first_element (JList (x # xs)) = Some x"
| "first_element (JStr (c # cs)) = Some (JStr [c])"
| "first_element v = None"

fun string_of :: "json option \<Rightarrow> string option" where
  "string_of (Some (JStr s)) = Some s"
| "string_of v = None"

fun top_label :: "json \<Rightarrow> string option" where
  "top_label (JDict d) =
     (case map_of d ''labels'' of None \<Rightarrow> None | Some ls \<Rightarrow> string_of (first_element ls))"
| "top_label (JList (JDict d # rest)) = string_of (map_of d ''label'')"
| "top_label v = None"

fun reply_label :: "exn + json \<Rightarrow> string" where
  "reply_label (Inl x) = ''miscellaneous''"
| "reply_label (Inr r) =
     (case top_label r of None \<Rightarrow> ''miscellaneous'' | Some l \<Rightarrow> lower l)"

fun honours_candidates :: "exn + json \<Rightarrow> bool" where
  "honours_candidates (Inl x) = True"
| "honours_candidates (Inr r) =
     (case top_label r of None \<Rightarrow> True | Some l \<Rightarrow> lower l \<in> set labels)"


fun is_str :: "json \<Rightarrow> bool" where
  "is_str (JStr s) = True"
| "is_str v = False"

fun no_image :: "submit_request \<Rightarrow> bool" where
  "no_image req = (case image req of None \<Rightarrow> True | Some f \<Rightarrow> \<not> truthy (filename f))"

text \<open>\<open>t\<close> contains \<open>s\<close> as a substring, without regard to case.\<close>

definition icontains :: "string \<Rightarrow> string \<Rightarrow> bool" where
  "icontains s t = sublist (lower s) (lower t)"

text \<open>The row's \<open>item_name\<close> or \<open>location\<close> contains the search text.\<close>

definition mentions :: "string \<Rightarrow> items_row \<Rightarrow> bool" where
  "mentions s r = (icontains s (col_item_name r) \<or> icontains s (col_location r))"

text \<open>A search text without the characters \<open>LIKE\<close> reads as more than themselves.\<close>

definition plain :: "string \<Rightarrow> bool" where
  "plain s = list_all (\<lambda>c. c \<noteq> CHR ''%'' \<and> c \<noteq> CHR ''_'' \<and> c \<noteq> CHR 0x5C) s"

definition newest_first :: "items_row list \<Rightarrow> bool" where
  "newest_first rows = sorted_wrt (\<lambda>a b. col_created_at b \<le> col_created_at a) rows"

section \<open>A sample deployment\<close>

text \<open>
  The example submission of the specification: a lost blue wallet reported without an
  image, a classifier that answers \<open>[{label: "wallets_and_purses"}]\<close>, a reachable
  database with an empty table.
\<close>

definition sample_env :: env where
  "sample_env =
     \<lparr>db_up = True, current_timestamp = 1000,
      classifier = (\<lambda>p. Inr (JList [JDict [(''label'', JStr ''wallets_and_purses'')]])),
      cloudinary_upload = (\<lambda>b. Inr [(''secure_url'', ''https://res.example/w.png'')])\<rparr>"

text \<open>The sample deployment with a classifier that answers \<open>r\<close>, and with one whose
  call raises.\<close>

definition replying :: "json \<Rightarrow> env" where
  "replying r = sample_env\<lparr>classifier := \<lambda>p. Inr r\<rparr>"

definition classifier_down :: env where
  "classifier_down = sample_env\<lparr>classifier := \<lambda>p. Inl RequestException\<rparr>"

definition sample_form :: submit_form where
  "sample_form =
     \<lparr>form_item_type = Some ''lost'', form_item_name = Some ''Blue Wallet'',
      form_description = None, form_location = Some ''Library'',
      form_contact_info = Some ''a@b.com''\<rparr>"

definition sample_request :: submit_request where
  "sample_request = \<lparr>form = sample_form, image = None\<rparr>"

definition empty_world :: world where
  "empty_world = \<lparr>items = [], items_id_seq = 1, upload_calls = [], classifier_calls = []\<rparr>"

text \<open>The world after the sample submission.\<close>

definition stored_sample :: world where
  "stored_sample =
     \<lparr>items = [\<lparr>col_id = 1, col_item_type = ''lost'', col_item_name = ''Blue Wallet'',
                 col_description = None, col_location = ''Library'',
                 col_contact_info = ''a@b.com'', col_image_path = None,
                 col_tag = Some ''wallets_and_purses'', col_created_at = 1000\<rparr>],
      items_id_seq = 2, upload_calls = [],
      classifier_calls = [tag_payload ''Blue Wallet'' []]\<rparr>"




definition sample_row :: "int \<Rightarrow> string \<Rightarrow> string \<Rightarrow> nat \<Rightarrow> items_row" where
  "sample_row i name loc t =
     \<lparr>col_id = i, col_item_type = ''found'', col_item_name = name, col_description = None,
      col_location = loc, col_contact_info = ''a@b.com'', col_image_path = None,
      col_tag = Some ''miscellaneous'', col_created_at = t\<rparr>"

definition sample_world :: world where
  "sample_world =
     \<lparr>items = [sample_row 1 ''ab'' ''cd'' 10, sample_row 2 ''Black WALLET'' ''Gym'' 30,
               sample_row 3 ''Keys'' ''Hall'' 20],
      items_id_seq = 4, upload_calls = [], classifier_calls = []\<rparr>"

section \<open>Properties of the Auto-Tagger\<close>

lemma classifier_replying [simp]: "classifier (replying r) p = Inr r"
  by (simp add: replying_def)

lemma classifier_classifier_down [simp]: "classifier classifier_down p = Inl RequestException"
  by (simp add: classifier_down_def)

lemma lower_char_idem: "lower_char (lower_char c) = lower_char c"
  by (auto simp: lower_char_def Let_def)

lemma lower_idem: "lower (lower s) = lower s"
  by (simp add: lower_def lower_char_idem)

lemma lower_miscellaneous: "lower ''miscellaneous'' = ''miscellaneous''"
  by (simp add: lower_def lower_char_def)

lemma lower_method_lower: "lower_method v = Inr t \<Longrightarrow> lower t = t"
  by (cases v) (auto simp: lower_idem)

lemma tag_of_result_lower: "tag_of_result r = Inr t \<Longrightarrow> lower t = t"
  by (auto simp: tag_of_result_def lower_miscellaneous
           split: if_splits sum.splits bool.splits dest: lower_method_lower)

lemma fst_auto_tag_item:
  "fst (auto_tag_item e n d w) =
     (case tag_attempt (classifier e (tag_payload n d)) of
        Inl x \<Rightarrow> ''miscellaneous'' | Inr t \<Rightarrow> t)"
  by (simp add: auto_tag_item_def Let_def split: sum.splits)


text \<open>
  C9: when the classifier answers with the empty list, reading its first element raises
  \<open>IndexError\<close> inside the \<open>try\<close> block, the handler catches it, and
  \<open>auto_tag_item\<close> returns \<open>"miscellaneous"\<close>.
\<close>

theorem auto_tag_item_empty_list:
  "fst (auto_tag_item (e\<lparr>classifier := \<lambda>p. Inr (JList [])\<rparr>) n d w) = ''miscellaneous''
   \<and> tag_of_result (JList []) = Inl IndexError"
  by (simp add: fst_auto_tag_item tag_attempt_def tag_of_result_def index_list_def)

text \<open>
  C10: the label \<open>auto_tag_item\<close> returns is already in lower case: lowering it again
  leaves it unchanged, for the parsed labels and for the fallback label.
\<close>

theorem auto_tag_item_lowercase:
  "lower (fst (auto_tag_item e n d w)) = fst (auto_tag_item e n d w)"
  by (auto simp: fst_auto_tag_item tag_attempt_def lower_miscellaneous
           split: sum.splits dest: tag_of_result_lower)

section \<open>Properties of the Intake Pipeline\<close>

lemma insert_item_Inr:
  assumes "insert_item e item w = Inr w3"
  shows "items w3 = items w @
           [\<lparr>col_id = items_id_seq w,
             col_item_type = varchar 20 (item_type item),
             col_item_name = varchar 100 (item_name item),
             col_description = description item,
             col_location = varchar 255 (location item),
             col_contact_info = varchar 100 (contact_info item),
             col_image_path = image_url item,
             col_tag = map_option (varchar 50) (tag item),
             col_created_at = current_timestamp e\<rparr>]"
    and "upload_calls w3 = upload_calls w"
    and "classifier_calls w3 = classifier_calls w"
    and "items_id_seq w3 = items_id_seq w + 1"
  using assms by (auto simp: insert_item_def split: sum.splits if_splits)

lemma as_form_Inr:
  "as_form ty name descr loc contact = Inr item \<Longrightarrow>
     item = \<lparr>item_type = ty, item_name = name, description = descr, location = loc,
             contact_info = contact, image_url = None, tag = None\<rparr>"
  by (auto simp: as_form_def split: if_splits)

lemma depends_as_form_defaults:
  "depends_as_form f = Inr item \<Longrightarrow> image_url item = None \<and> tag item = None"
  by (auto simp: depends_as_form_def split: option.splits dest: as_form_Inr)

lemma save_uploaded_image_world:
  assumes "save_uploaded_image e f w = (r, w1)"
  shows "items w1 = items w" and "items_id_seq w1 = items_id_seq w"
    and "classifier_calls w1 = classifier_calls w"
  using assms by (auto simp: save_uploaded_image_def Let_def split: if_splits sum.splits)

lemma submit_item_rejected:
  "depends_as_form (form req) = Inl x \<Longrightarrow> submit_item e req w = (Inl x, w)"
  by (simp add: submit_item_def)

lemma submit_item_valid:
  "submit_item e req w = (Inr resp, w') \<Longrightarrow> \<exists>item. depends_as_form (form req) = Inr item"
  by (cases "depends_as_form (form req)") (auto simp: submit_item_def)


lemma submit_item_row:
  assumes "submit_item e req w = (Inr resp, w')"
    and "depends_as_form (form req) = Inr item"
  shows "items w' = items w @
           [\<lparr>col_id = items_id_seq w,
             col_item_type = varchar 20 (item_type item),
             col_item_name = varchar 100 (item_name item),
             col_description = description item,
             col_location = varchar 255 (location item),
             col_contact_info = varchar 100 (contact_info item),
             col_image_path =
               (case image req of
                  None \<Rightarrow> None
                | Some f \<Rightarrow>
                    if truthy (filename f)
                    then (case fst (save_uploaded_image e f w) of
                            Inl x \<Rightarrow> None | Inr url \<Rightarrow> Some url)
                    else None),
             col_tag = Some (varchar 50
               (fst (auto_tag_item e (item_name item) (or_empty (description item)) w))),
             col_created_at = current_timestamp e\<rparr>]"
proof -
  from assms(2) have d: "image_url item = None" "tag item = None"
    using depends_as_form_defaults by auto
  show ?thesis
  proof (cases "image req")
    case None
    with assms d show ?thesis
      by (auto simp: submit_item_def fst_auto_tag_item auto_tag_item_def Let_def
               split: sum.splits dest!: insert_item_Inr(1))
  next
    case (Some f)
    show ?thesis
    proof (cases "truthy (filename f)")
      case False
      with Some assms d show ?thesis
        by (auto simp: submit_item_def fst_auto_tag_item auto_tag_item_def Let_def
                 split: sum.splits dest!: insert_item_Inr(1))
    next
      case True
      obtain r w1 where s: "save_uploaded_image e f w = (r, w1)"
        by (cases "save_uploaded_image e f w")
      note k = save_uploaded_image_world [OF s]
      from Some True assms d s k show ?thesis
        by (auto simp: submit_item_def fst_auto_tag_item auto_tag_item_def Let_def
                 split: sum.splits dest!: insert_item_Inr(1))
    qed
  qed
qed

lemma submit_item_no_upload:
  "no_image req \<Longrightarrow> upload_calls (snd (submit_item e req w)) = upload_calls w"
  by (auto simp: submit_item_def auto_tag_item_def Let_def
           split: sum.splits option.splits if_splits prod.splits
           dest: insert_item_Inr(2))

lemma faulty_reply_attempt:
  assumes "faulty_reply r"
  shows "(case tag_attempt r of Inl x \<Rightarrow> ''miscellaneous'' | Inr t \<Rightarrow> t) = ''miscellaneous''"
proof (cases r)
  case (Inl x)
  then show ?thesis by (simp add: tag_attempt_def)
next
  case (Inr j)
  with assms have n: "\<not> recognised_shape j" by simp
  show ?thesis
  proof (cases j)
    case (JList xs)
    show ?thesis
    proof (cases xs)
      case Nil
      with JList Inr show ?thesis
        by (simp add: tag_attempt_def tag_of_result_def index_list_def)
    next
      case (Cons y ys)
      with JList Inr n show ?thesis
        by (cases y) (auto simp: tag_attempt_def tag_of_result_def index_list_def split: sum.splits bool.splits)
    qed
  qed (use Inr n in \<open>auto simp: tag_attempt_def tag_of_result_def\<close>)
qed

lemma varchar_miscellaneous: "varchar 50 ''miscellaneous'' = ''miscellaneous''"
  by (simp add: varchar_def)

text \<open>
  C1: when the classifier call raises or the body has neither recognised shape,
  \<open>auto_tag_item\<close> returns \<open>"miscellaneous"\<close> (its result is a plain string: no
  exception leaves it); a submission that is stored with such a reply has the tag
  \<open>"miscellaneous"\<close>.
\<close>

theorem auto_tag_item_fallback:
  "(faulty_reply (classifier e (tag_payload n d)) \<longrightarrow>
      fst (auto_tag_item e n d w) = ''miscellaneous'')
   \<and> (submit_item e req w = (Inr resp, w') \<and> depends_as_form (form req) = Inr item
        \<and> faulty_reply (classifier e (tag_payload (item_name item) (or_empty (description item))))
      \<longrightarrow> col_tag (last (items w')) = Some ''miscellaneous'')"
proof (intro conjI impI)
  assume "faulty_reply (classifier e (tag_payload n d))"
  then show "fst (auto_tag_item e n d w) = ''miscellaneous''"
    by (simp add: fst_auto_tag_item faulty_reply_attempt)
next
  assume a: "submit_item e req w = (Inr resp, w') \<and> depends_as_form (form req) = Inr item
        \<and> faulty_reply (classifier e (tag_payload (item_name item) (or_empty (description item))))"
  then have "fst (auto_tag_item e (item_name item) (or_empty (description item)) w) = ''miscellaneous''"
    by (simp add: fst_auto_tag_item faulty_reply_attempt)
  with a show "col_tag (last (items w')) = Some ''miscellaneous''"
    using submit_item_row [of e req w resp w' item] by (simp add: varchar_miscellaneous)
qed

lemma sample_submission:
  "submit_item sample_env sample_request empty_world =
     (Inr (RedirectResponse ''/view-items'' 303), stored_sample)"
  by (simp add: submit_item_def sample_env_def sample_request_def sample_form_def
        empty_world_def stored_sample_def depends_as_form_def as_form_def auto_tag_item_def Let_def
        tag_attempt_def tag_of_result_def index_list_def insert_item_def get_connection_def
        has_nul_def fits_def varchar_def lower_def lower_char_def)

lemmas pipeline_defs =
  submit_item_def sample_env_def replying_def classifier_down_def sample_request_def sample_form_def
  empty_world_def depends_as_form_def as_form_def auto_tag_item_def Let_def
  tag_attempt_def tag_of_result_def index_list_def insert_item_def get_connection_def
  has_nul_def fits_def varchar_def lower_def lower_char_def save_uploaded_image_def

lemma sample_item:
  "depends_as_form (form sample_request) =
     Inr \<lparr>item_type = ''lost'', item_name = ''Blue Wallet'', description = None,
          location = ''Library'', contact_info = ''a@b.com'', image_url = None, tag = None\<rparr>"
  by (simp add: pipeline_defs)

theorem auto_tag_item_fallback_witness:
  "faulty_reply (classifier classifier_down (tag_payload ''Blue Wallet'' []))
   \<and> fst (auto_tag_item classifier_down ''Blue Wallet'' [] empty_world) = ''miscellaneous''
   \<and> fst (submit_item classifier_down sample_request empty_world)
       = Inr (RedirectResponse ''/view-items'' 303)
   \<and> col_tag (last (items (snd (submit_item classifier_down sample_request empty_world))))
       = Some ''miscellaneous''"
proof -
  let ?e = "classifier_down"
  obtain r w' where s: "submit_item ?e sample_request empty_world = (r, w')"
    by (cases "submit_item ?e sample_request empty_world")
  have r: "r = Inr (RedirectResponse ''/view-items'' 303)"
    using s by (simp add: pipeline_defs)
  have f: "faulty_reply (classifier ?e (tag_payload ''Blue Wallet'' []))" by simp
  show ?thesis
    using auto_tag_item_fallback
      [of ?e "''Blue Wallet''" "[]" empty_world sample_request
          "RedirectResponse ''/view-items'' 303" w'
          "\<lparr>item_type = ''lost'', item_name = ''Blue Wallet'', description = None,
           location = ''Library'', contact_info = ''a@b.com'', image_url = None, tag = None\<rparr>"]
      s r f sample_item
    by simp
qed

text \<open>
  C2, as stated, fails: the sample submission has no image and is stored with
  \<open>image_path\<close> null, not the empty string. The local \<open>image_url = ""\<close> of
  \<open>submit_item\<close> is never written to the item.
\<close>

theorem submit_item_no_image_cex:
  "no_image sample_request
   \<and> fst (submit_item sample_env sample_request empty_world)
       = Inr (RedirectResponse ''/view-items'' 303)
   \<and> col_image_path (last (items (snd (submit_item sample_env sample_request empty_world))))
       = None
   \<and> col_image_path (last (items (snd (submit_item sample_env sample_request empty_world))))
       \<noteq> Some []"
  by (simp add: sample_submission) (simp add: sample_request_def stored_sample_def)

text \<open>
  C2, amended: a submission without an image makes no call to the image host, whatever
  happens later in the request, and when it is stored its \<open>image_path\<close> is null.
\<close>

theorem submit_item_no_image:
  "no_image req \<Longrightarrow>
     upload_calls (snd (submit_item e req w)) = upload_calls w
     \<and> (submit_item e req w = (Inr resp, w') \<longrightarrow>
          col_image_path (last (items w')) = None)"
proof (intro conjI impI)
  assume n: "no_image req"
  then show "upload_calls (snd (submit_item e req w)) = upload_calls w"
    by (rule submit_item_no_upload)
  assume s: "submit_item e req w = (Inr resp, w')"
  then obtain item where "depends_as_form (form req) = Inr item"
    using submit_item_valid by blast
  from submit_item_row [OF s this] n show "col_image_path (last (items w')) = None"
    by (auto split: option.splits)
qed

theorem submit_item_no_image_witness:
  "no_image sample_request
   \<and> upload_calls (snd (submit_item sample_env sample_request empty_world))
       = upload_calls empty_world
   \<and> fst (submit_item sample_env sample_request empty_world)
       = Inr (RedirectResponse ''/view-items'' 303)
   \<and> col_image_path (last (items (snd (submit_item sample_env sample_request empty_world))))
       = None"
proof -
  have n: "no_image sample_request" by (simp add: sample_request_def)
  show ?thesis
    using submit_item_no_image
      [OF n, of sample_env empty_world "RedirectResponse ''/view-items'' 303" stored_sample]
      n sample_submission
    by simp
qed

lemma labels_short: "t \<in> set labels \<Longrightarrow> varchar 50 t = t"
  by (auto simp: labels_def varchar_def)

text \<open>
  C3, as stated, fails: the label of the classifier's reply is stored without a check
  against the candidate labels. A reply \<open>{labels: ["unicorn"]}\<close> stores the tag
  \<open>"unicorn"\<close>.
\<close>

theorem submit_item_tag_cex:
  "fst (submit_item
          (replying (JDict [(''labels'', JList [JStr ''unicorn''])]))
          sample_request empty_world) = Inr (RedirectResponse ''/view-items'' 303)
   \<and> col_tag (last (items (snd (submit_item
          (replying (JDict [(''labels'', JList [JStr ''unicorn''])]))
          sample_request empty_world)))) = Some ''unicorn''
   \<and> ''unicorn'' \<notin> set labels"
  by (simp add: pipeline_defs) (simp add: labels_def)

text \<open>
  The label \<open>auto_tag_item\<close> returns is the label the specification gives the reply:
  every way in which the \<open>try\<close> block raises is a reply without a top label.
\<close>

lemma string_of_first_element:
  "(case getitem_int ls 0 of Inl x \<Rightarrow> ''miscellaneous''
    | Inr l \<Rightarrow> (case lower_method l of Inl x \<Rightarrow> ''miscellaneous'' | Inr t \<Rightarrow> t)) =
   (case string_of (first_element ls) of None \<Rightarrow> ''miscellaneous'' | Some l \<Rightarrow> lower l)"
proof (cases ls)
  case (JList xs)
  then show ?thesis
  proof (cases xs)
    case Nil
    with JList show ?thesis by (simp add: index_list_def)
  next
    case (Cons y ys)
    with JList show ?thesis by (cases y) (simp_all add: index_list_def)
  qed
next
  case (JStr cs)
  then show ?thesis by (cases cs) (simp_all add: index_list_def)
qed simp_all

lemma lower_method_string_of:
  "(case lower_method v of Inl x \<Rightarrow> ''miscellaneous'' | Inr t \<Rightarrow> t) =
   (case string_of (Some v) of None \<Rightarrow> ''miscellaneous'' | Some l \<Rightarrow> lower l)"
  by (cases v) simp_all

lemma tag_of_result_reply_label:
  "(case tag_of_result r of Inl x \<Rightarrow> ''miscellaneous'' | Inr t \<Rightarrow> t) = reply_label (Inr r)"
proof (cases r)
  case (JDict d)
  show ?thesis
  proof (cases "map_of d ''labels''")
    case None
    with JDict show ?thesis by (simp add: tag_of_result_def)
  next
    case (Some ls)
    with JDict string_of_first_element [of ls] show ?thesis
      by (simp add: tag_of_result_def split: sum.splits)
  qed
next
  case (JList xs)
  show ?thesis
  proof (cases xs)
    case Nil
    with JList show ?thesis by (simp add: tag_of_result_def index_list_def)
  next
    case (Cons y ys)
    show ?thesis
    proof (cases y)
      case (JDict d)
      show ?thesis
      proof (cases "map_of d ''label''")
        case None
        with JDict Cons JList show ?thesis by (simp add: tag_of_result_def index_list_def)
      next
        case (Some v)
        with JDict Cons JList lower_method_string_of [of v] show ?thesis
          by (simp add: tag_of_result_def index_list_def split: sum.splits)
      qed
    qed (use Cons JList in
        \<open>simp_all add: tag_of_result_def index_list_def split: bool.splits\<close>)
  qed
qed (simp_all add: tag_of_result_def)

lemma auto_tag_item_reply_label:
  "fst (auto_tag_item e n d w) = reply_label (classifier e (tag_payload n d))"
proof (cases "classifier e (tag_payload n d)")
  case (Inl x)
  then show ?thesis by (simp add: fst_auto_tag_item tag_attempt_def)
next
  case (Inr r)
  with tag_of_result_reply_label [of r] show ?thesis
    by (simp add: fst_auto_tag_item tag_attempt_def)
qed

lemma honours_candidates_label: "honours_candidates r \<Longrightarrow> reply_label r \<in> set labels"
  by (cases r) (auto simp: labels_def split: option.splits)

text \<open>
  C3, amended: a stored submission is one new row at the end of the table; its tag is
  never null: it is the top label of the classifier's reply in lower case, or
  \<open>"miscellaneous"\<close> when the call raised or the reply has no top label, as the column
  \<open>VARCHAR(50)\<close> keeps it. When the reply honours the candidates, the tag is one of the
  candidate labels (\<open>"miscellaneous"\<close> is the last of them).
\<close>

theorem submit_item_tag:
  "submit_item e req w = (Inr resp, w') \<and> depends_as_form (form req) = Inr item \<longrightarrow>
     items w' = items w @ [last (items w')]
     \<and> col_tag (last (items w')) =
         Some (varchar 50
           (reply_label (classifier e (tag_payload (item_name item) (or_empty (description item))))))
     \<and> (honours_candidates
           (classifier e (tag_payload (item_name item) (or_empty (description item))))
        \<longrightarrow> (\<exists>t. col_tag (last (items w')) = Some t \<and> t \<in> set labels))"
  using submit_item_row [of e req w resp w' item]
    honours_candidates_label
      [of "classifier e (tag_payload (item_name item) (or_empty (description item)))"]
  by (auto simp: labels_short auto_tag_item_reply_label)

theorem submit_item_tag_witness:
  "submit_item sample_env sample_request empty_world =
     (Inr (RedirectResponse ''/view-items'' 303), stored_sample)
   \<and> honours_candidates (classifier sample_env (tag_payload ''Blue Wallet'' []))
   \<and> reply_label (classifier sample_env (tag_payload ''Blue Wallet'' [])) = ''wallets_and_purses''
   \<and> col_tag (last (items stored_sample)) = Some ''wallets_and_purses''
   \<and> ''wallets_and_purses'' \<in> set labels"
proof -
  have h: "honours_candidates (classifier sample_env (tag_payload ''Blue Wallet'' []))"
    by (simp add: sample_env_def lower_def lower_char_def labels_def)
  have l: "reply_label (classifier sample_env (tag_payload ''Blue Wallet'' []))
             = ''wallets_and_purses''"
    by (simp add: sample_env_def lower_def lower_char_def)
  have m: "''wallets_and_purses'' \<in> set labels" by (simp add: labels_def)
  show ?thesis
    using submit_item_tag
      [of sample_env sample_request empty_world "RedirectResponse ''/view-items'' 303"
          stored_sample
          "\<lparr>item_type = ''lost'', item_name = ''Blue Wallet'', description = None,
           location = ''Library'', contact_info = ''a@b.com'', image_url = None, tag = None\<rparr>"]
      sample_submission sample_item h l m
    by (simp add: varchar_def)
qed






text \<open>
  C4, as stated, fails: \<open>{labels: []}\<close> is an object with a \<open>labels\<close> field, the
  field has no first element, and \<open>auto_tag_item\<close> returns \<open>"miscellaneous"\<close>.
\<close>

theorem auto_tag_item_top_label_cex:
  "recognised_shape (JDict [(''labels'', JList [])])
   \<and> getitem_int (JList []) 0 = Inl IndexError
   \<and> fst (auto_tag_item (replying (JDict [(''labels'', JList [])]))
             ''Blue Wallet'' [] empty_world) = ''miscellaneous''"
  by (simp add: pipeline_defs)

lemma not_is_str_lower: "\<not> is_str v \<Longrightarrow> lower_method v = Inl AttributeError"
  by (cases v) auto

text \<open>
  C4, amended: for an object whose \<open>labels\<close> field has a first element that is a
  string, \<open>auto_tag_item\<close> returns that element in lower case; for a list whose first
  element is an object with a string in its \<open>label\<close> field, it returns that string in
  lower case; when the first element is missing or is not a string it returns
  \<open>"miscellaneous"\<close>. A submission stored with the reply
  \<open>{labels: ["documents", "books"]}\<close> has the tag \<open>"documents"\<close>.
\<close>

theorem auto_tag_item_top_label:
  "(classifier e (tag_payload n d) = Inr (JDict dct) \<and> map_of dct ''labels'' = Some ls
      \<and> getitem_int ls 0 = Inr (JStr l)
    \<longrightarrow> fst (auto_tag_item e n d w) = lower l)
   \<and> (classifier e (tag_payload n d) = Inr (JList (JDict dct # rest))
      \<and> map_of dct ''label'' = Some (JStr l)
    \<longrightarrow> fst (auto_tag_item e n d w) = lower l)
   \<and> (classifier e (tag_payload n d) = Inr (JDict dct) \<and> map_of dct ''labels'' = Some ls
      \<and> (case getitem_int ls 0 of Inl x \<Rightarrow> True | Inr v \<Rightarrow> \<not> is_str v)
    \<longrightarrow> fst (auto_tag_item e n d w) = ''miscellaneous'')
   \<and> (classifier e (tag_payload n d) = Inr (JList (JDict dct # rest))
      \<and> map_of dct ''label'' = Some v \<and> \<not> is_str v
    \<longrightarrow> fst (auto_tag_item e n d w) = ''miscellaneous'')
   \<and> (submit_item e req w = (Inr resp, w') \<and> depends_as_form (form req) = Inr item
      \<and> classifier e (tag_payload (item_name item) (or_empty (description item)))
          = Inr (JDict [(''labels'', JList [JStr ''documents'', JStr ''books''])])
    \<longrightarrow> col_tag (last (items w')) = Some ''documents'')"
proof (intro conjI impI)
  assume a: "submit_item e req w = (Inr resp, w') \<and> depends_as_form (form req) = Inr item
      \<and> classifier e (tag_payload (item_name item) (or_empty (description item)))
          = Inr (JDict [(''labels'', JList [JStr ''documents'', JStr ''books''])])"
  then have "fst (auto_tag_item e (item_name item) (or_empty (description item)) w) = ''documents''"
    by (simp add: fst_auto_tag_item tag_attempt_def tag_of_result_def index_list_def
          lower_def lower_char_def)
  with a show "col_tag (last (items w')) = Some ''documents''"
    using submit_item_row [of e req w resp w' item] by (simp add: varchar_def)
qed (auto simp: fst_auto_tag_item tag_attempt_def tag_of_result_def index_list_def
       not_is_str_lower split: sum.splits)

theorem auto_tag_item_top_label_witness:
  "fst (auto_tag_item
          (replying (JDict [(''labels'', JList [JStr ''documents'', JStr ''books''])]))
          ''Blue Wallet'' [] empty_world) = lower ''documents''
   \<and> fst (auto_tag_item sample_env ''Blue Wallet'' [] empty_world) = lower ''wallets_and_purses''
   \<and> fst (auto_tag_item
          (replying (JDict [(''labels'', JList [])]))
          ''Blue Wallet'' [] empty_world) = ''miscellaneous''
   \<and> fst (auto_tag_item
          (replying (JList [JDict [(''label'', JNull)]]))
          ''Blue Wallet'' [] empty_world) = ''miscellaneous''
   \<and> fst (submit_item
          (replying (JDict [(''labels'', JList [JStr ''documents'', JStr ''books''])]))
          sample_request empty_world) = Inr (RedirectResponse ''/view-items'' 303)
   \<and> col_tag (last (items (snd (submit_item
          (replying (JDict [(''labels'', JList [JStr ''documents'', JStr ''books''])]))
          sample_request empty_world)))) = Some ''documents''"
proof -
  let ?d = "[(''labels'', JList [JStr ''documents'', JStr ''books''])]"
  let ?e1 = "replying (JDict ?d)"
  let ?e3 = "replying (JDict [(''labels'', JList [])])"
  let ?e4 = "replying (JList [JDict [(''label'', JNull)]])"
  let ?item = "\<lparr>item_type = ''lost'', item_name = ''Blue Wallet'', description = None,
           location = ''Library'', contact_info = ''a@b.com'', image_url = None, tag = None\<rparr>"
  let ?r = "RedirectResponse ''/view-items'' 303"
  obtain r w' where s: "submit_item ?e1 sample_request empty_world = (r, w')"
    by (cases "submit_item ?e1 sample_request empty_world")
  have r: "r = Inr ?r"
    using s by (simp add: pipeline_defs)
  have g: "getitem_int (JList [JStr ''documents'', JStr ''books'']) 0 = Inr (JStr ''documents'')"
    by (simp add: index_list_def)
  have c2: "classifier sample_env (tag_payload ''Blue Wallet'' [])
              = Inr (JList (JDict [(''label'', JStr ''wallets_and_purses'')] # []))"
    by (simp add: sample_env_def)
  have g3: "getitem_int (JList []) 0 = Inl IndexError"
    by (simp add: index_list_def)
  note t1 = auto_tag_item_top_label
      [of ?e1 "''Blue Wallet''" "[]" ?d "JList [JStr ''documents'', JStr ''books'']"
          "''documents''" empty_world "[]" JNull sample_request ?r w' ?item]
  note t2 = auto_tag_item_top_label
      [of sample_env "''Blue Wallet''" "[]" "[(''label'', JStr ''wallets_and_purses'')]" JNull
          "''wallets_and_purses''" empty_world "[]" JNull sample_request ?r w' ?item]
  note t3 = auto_tag_item_top_label
      [of ?e3 "''Blue Wallet''" "[]" "[(''labels'', JList [])]" "JList []"
          "''documents''" empty_world "[]" JNull sample_request ?r w' ?item]
  note t4 = auto_tag_item_top_label
      [of ?e4 "''Blue Wallet''" "[]" "[(''label'', JNull)]" JNull
          "''documents''" empty_world "[]" JNull sample_request ?r w' ?item]
  show ?thesis
    using t1 t2 t3 t4 s r g c2 g3 sample_item
    by simp
qed

section \<open>Validation of a submission\<close>

lemma depends_as_form_missing:
  "form_value (form_item_type f) = None \<or> form_value (form_item_name f) = None
     \<or> form_value (form_location f) = None \<or> form_value (form_contact_info f) = None
   \<Longrightarrow> depends_as_form f = Inl RequestValidationError"
  by (auto simp: depends_as_form_def split: option.splits)

lemma depends_as_form_violated:
  assumes "form_value (form_item_type f) = Some ty" "form_value (form_item_name f) = Some name"
    "form_value (form_location f) = Some loc" "form_value (form_contact_info f) = Some contact"
    and "(ty \<noteq> ''lost'' \<and> ty \<noteq> ''found'') \<or> length name < 2 \<or> 100 < length name
          \<or> length loc < 2"
  shows "depends_as_form f = Inl ValidationError"
  using assms by (auto simp: depends_as_form_def as_form_def)

text \<open>
  C6 at a submission with \<open>item_type = "stolen"\<close>: it is rejected before any upload,
  classifier call or insert (the world is unchanged), but by the \<open>ValidationError\<close>
  that pydantic raises inside \<open>as_form\<close>, which FastAPI answers with status 500 and
  not with a client error.
\<close>

theorem submit_item_invalid_item_type:
  "submit_item e \<lparr>form = sample_form\<lparr>form_item_type := Some ''stolen''\<rparr>, image = img\<rparr> w
     = (Inl ValidationError, w)
   \<and> http_status (fst (submit_item e
        \<lparr>form = sample_form\<lparr>form_item_type := Some ''stolen''\<rparr>, image = img\<rparr> w)) = 500"
  by (simp add: submit_item_def depends_as_form_def as_form_def sample_form_def)

section \<open>Properties of the read routes\<close>

lemma find_none: "i \<notin> set (map col_id rows) \<Longrightarrow> find (\<lambda>r. col_id r = i) rows = None"
  by (induction rows) auto

lemma find_distinct:
  "distinct (map col_id rows) \<Longrightarrow> r \<in> set rows \<Longrightarrow>
     find (\<lambda>x. col_id x = col_id r) rows = Some r"
  by (induction rows) (auto simp: image_iff)

text \<open>
  C7: with the database reachable, \<open>view_item_detail\<close> raises
  \<open>HTTPException(404)\<close> when no row has the id, and otherwise renders the item whose
  nine fields are those stored in the row with that id (\<open>id\<close> is the primary key).
\<close>

theorem view_item_detail_found_or_404:
  assumes "db_up e"
  shows "(i \<notin> set (map col_id (items w)) \<longrightarrow>
            view_item_detail e i w = Inl (HTTPException 404 ''Item not found'')
            \<and> http_status (view_item_detail e i w) = 404)
       \<and> (distinct (map col_id (items w)) \<and> r \<in> set (items w) \<and> col_id r = i \<longrightarrow>
            view_item_detail e i w =
              Inr (TemplateResponse ''item_detail.html''
                (Item [(''id'', IntV (col_id r)),
                       (''item_type'', TextV (col_item_type r)),
                       (''item_name'', TextV (col_item_name r)),
                       (''description'', opt_text (col_description r)),
                       (''location'', TextV (col_location r)),
                       (''contact_info'', TextV (col_contact_info r)),
                       (''image_path'', opt_text (col_image_path r)),
                       (''tag'', opt_text (col_tag r)),
                       (''created_at'', TimestampV (col_created_at r))])))"
proof (intro conjI impI)
  assume "i \<notin> set (map col_id (items w))"
  then have f: "find (\<lambda>r. col_id r = i) (items w) = None" by (rule find_none)
  with assms show "view_item_detail e i w = Inl (HTTPException 404 ''Item not found'')"
    by (simp add: view_item_detail_def get_connection_def)
  then show "http_status (view_item_detail e i w) = 404" by simp
next
  assume a: "distinct (map col_id (items w)) \<and> r \<in> set (items w) \<and> col_id r = i"
  then have "find (\<lambda>x. col_id x = i) (items w) = Some r"
    using find_distinct [of "items w" r] by auto
  with assms show "view_item_detail e i w =
              Inr (TemplateResponse ''item_detail.html''
                (Item [(''id'', IntV (col_id r)),
                       (''item_type'', TextV (col_item_type r)),
                       (''item_name'', TextV (col_item_name r)),
                       (''description'', opt_text (col_description r)),
                       (''location'', TextV (col_location r)),
                       (''contact_info'', TextV (col_contact_info r)),
                       (''image_path'', opt_text (col_image_path r)),
                       (''tag'', opt_text (col_tag r)),
                       (''created_at'', TimestampV (col_created_at r))]))"
    by (simp add: view_item_detail_def get_connection_def columns_def row_tuple_def)
qed

theorem view_item_detail_found_or_404_witness:
  "db_up sample_env
   \<and> 7 \<notin> set (map col_id (items sample_world))
   \<and> view_item_detail sample_env 7 sample_world = Inl (HTTPException 404 ''Item not found'')
   \<and> http_status (view_item_detail sample_env 7 sample_world) = 404
   \<and> distinct (map col_id (items sample_world))
   \<and> sample_row 3 ''Keys'' ''Hall'' 20 \<in> set (items sample_world)
   \<and> view_item_detail sample_env 3 sample_world =
       Inr (TemplateResponse ''item_detail.html''
         (Item [(''id'', IntV 3), (''item_type'', TextV ''found''),
                (''item_name'', TextV ''Keys''), (''description'', Null),
                (''location'', TextV ''Hall''), (''contact_info'', TextV ''a@b.com''),
                (''image_path'', Null), (''tag'', TextV ''miscellaneous''),
                (''created_at'', TimestampV 20)]))"
proof -
  have u: "db_up sample_env" by (simp add: sample_env_def)
  have n: "7 \<notin> set (map col_id (items sample_world))"
    by (simp add: sample_world_def sample_row_def)
  have d: "distinct (map col_id (items sample_world))"
    by (simp add: sample_world_def sample_row_def)
  have m: "sample_row 3 ''Keys'' ''Hall'' 20 \<in> set (items sample_world)"
    by (simp add: sample_world_def)
  have c: "col_id (sample_row 3 ''Keys'' ''Hall'' 20) = 3" by (simp add: sample_row_def)
  show ?thesis
    using view_item_detail_found_or_404 [OF u, of 7 sample_world "sample_row 3 ''Keys'' ''Hall'' 20"]
      view_item_detail_found_or_404 [OF u, of 3 sample_world "sample_row 3 ''Keys'' ''Hall'' 20"]
      u n d m c
    by (simp add: sample_row_def)
qed

lemma lower_char_fixed:
  assumes "lower_char c = m" and "(of_char m :: nat) < 97"
  shows "c = m"
proof -
  from assms(1) have "(of_char (lower_char c) :: nat) = of_char m" by simp
  with assms(2) have "(of_char c :: nat) = of_char m"
    by (auto simp: lower_char_def Let_def split: if_splits)
  then show ?thesis by (simp only: of_char_eq_iff)
qed

lemma lower_char_meta:
  "(lower_char c = CHR ''%'') = (c = CHR ''%'')"
  "(lower_char c = CHR ''_'') = (c = CHR ''_'')"
  "(lower_char c = CHR 0x5C) = (c = CHR 0x5C)"
proof -
  have k: "lower_char CHR ''%'' = CHR ''%''" "lower_char CHR ''_'' = CHR ''_''"
    "lower_char CHR 0x5C = CHR 0x5C"
    by (simp_all add: lower_char_def)
  show "(lower_char c = CHR ''%'') = (c = CHR ''%'')"
    using lower_char_fixed [of c "CHR ''%''"] k by auto
  show "(lower_char c = CHR ''_'') = (c = CHR ''_'')"
    using lower_char_fixed [of c "CHR ''_''"] k by auto
  show "(lower_char c = CHR 0x5C) = (c = CHR 0x5C)"
    using lower_char_fixed [of c "CHR 0x5C"] k by auto
qed

lemma plain_lower: "plain s \<Longrightarrow> plain (lower s)"
  by (induction s) (auto simp: plain_def lower_def lower_char_meta)

lemma like_tokens_Cons:
  "c \<noteq> CHR 0x5C \<Longrightarrow>
     like_tokens (c # cs) =
       (case like_tokens cs of
          Inl x \<Rightarrow> Inl x
        | Inr ts \<Rightarrow> Inr ((if c = CHR ''%'' then Any_String
                           else if c = CHR ''_'' then Any_Char else Literal c) # ts))"
  by (cases cs) auto

text \<open>A pattern that ends in \<open>%\<close> never ends in a lone backslash: every search text
  gives a pattern PostgreSQL accepts.\<close>

lemma like_tokens_percent: "like_tokens (s @ ''%'') \<noteq> Inl x"
proof (induction s arbitrary: x rule: like_tokens.induct)
  case 1
  then show ?case by simp
next
  case (2 c)
  then show ?case by simp
next
  case (3 c q qs)
  show ?case
  proof (cases "c = CHR 0x5C")
    case True
    with 3(1) [OF True] show ?thesis by (auto split: sum.splits)
  next
    case False
    with 3(2) [OF False] show ?thesis by (auto split: sum.splits)
  qed
qed

lemma like_tokens_plain:
  "plain s \<Longrightarrow> like_tokens (s @ ''%'') = Inr (map Literal s @ [Any_String])"
  by (induction s) (auto simp: plain_def like_tokens_Cons)

lemma like_tokens_search:
  "plain s \<Longrightarrow>
     like_tokens (''%'' @ s @ ''%'') = Inr (Any_String # map Literal s @ [Any_String])"
  using like_tokens_plain [of s] by (simp add: like_tokens_Cons)

lemma like_match_any: "like_match [Any_String] t"
  by (induction t) auto

lemma like_match_prefix:
  "like_match (map Literal s @ [Any_String]) t = prefix s t"
proof (induction s arbitrary: t)
  case Nil
  then show ?case by (simp add: like_match_any)
next
  case (Cons c s)
  then show ?case by (cases t) auto
qed

lemma like_match_any_string:
  "like_match (Any_String # ps) t = (\<exists>v. suffix v t \<and> like_match ps v)"
proof (induction t)
  case Nil
  then show ?case by simp
next
  case (Cons c cs)
  then show ?case by (auto simp: suffix_Cons)
qed

lemma like_match_sublist:
  "like_match (Any_String # map Literal s @ [Any_String]) t = sublist s t"
  by (simp only: like_match_any_string like_match_prefix sublist_altdef')

lemma lower_search: "lower (''%'' @ s @ ''%'') = ''%'' @ lower s @ ''%''"
  by (simp add: lower_def lower_char_def)

lemma ilike_plain:
  "plain s \<Longrightarrow> ilike t (''%'' @ s @ ''%'') = Inr (icontains s t)"
  by (simp add: ilike_def lower_search like_tokens_search plain_lower like_match_sublist
        icontains_def del: append.simps)

lemma mset_order_by: "mset (order_by_created_at_desc rows) = mset rows"
  by (simp add: order_by_created_at_desc_def)

lemma newest_first_order_by: "newest_first (order_by_created_at_desc rows)"
proof -
  have "sorted (map col_created_at (sort_key col_created_at rows))" by simp
  then have "sorted_wrt (\<lambda>a b. col_created_at a \<le> col_created_at b)
               (sort_key col_created_at rows)"
    by (simp add: sorted_map)
  then show ?thesis
    by (simp add: newest_first_def order_by_created_at_desc_def sorted_wrt_rev)
qed

lemma mentions_fun:
  "mentions s = (\<lambda>r. icontains s (col_item_name r) \<or> icontains s (col_location r))"
  by (rule ext) (simp add: mentions_def)

lemma has_nul_search: "has_nul (''%'' @ s @ ''%'') = has_nul s"
  by (simp add: has_nul_def)

lemma select_items_where_plain:
  "plain s \<Longrightarrow> \<not> has_nul s \<Longrightarrow>
     select_items_where (''%'' @ s @ ''%'') rows =
       Inr (order_by_created_at_desc
              (filter (mentions s) rows))"
  by (simp add: select_items_where_def ilike_plain lower_search like_tokens_search plain_lower
        mentions_fun has_nul_search del: append.simps)

text \<open>With the database reachable \<open>view_items\<close> renders a listing for every search
  text without NUL, and raises \<open>ValueError\<close> for one with NUL.\<close>

lemma view_items_nul:
  "db_up e \<Longrightarrow> has_nul search \<Longrightarrow> view_items e search w = Inl ValueError"
  by (auto simp: view_items_def get_connection_def select_items_where_def has_nul_search
        has_nul_def simp del: append.simps)

lemma view_items_returns:
  assumes "db_up e" and "\<not> has_nul search"
  shows "\<exists>rows. view_items e search w =
           Inr (TemplateResponse ''items.html'' (Items_Search (map row_dict rows) search))"
proof -
  have "lower (''%'' @ search @ ''%'') = (''%'' @ lower search) @ ''%''"
    by (simp add: lower_def lower_char_def)
  then have "like_tokens (lower (''%'' @ search @ ''%'')) \<noteq> Inl x" for x
    by (simp only: like_tokens_percent not_False_eq_True)
  then obtain ts where "like_tokens (lower (''%'' @ search @ ''%'')) = Inr ts"
    by (cases "like_tokens (lower (''%'' @ search @ ''%''))") auto
  with assms show ?thesis
    by (auto simp: view_items_def get_connection_def select_items_where_def has_nul_search
             simp del: append.simps)
qed

text \<open>
  What the listing does when the search text has none of the characters \<open>%\<close>, \<open>_\<close>,
  backslash and NUL: all rows for the empty text, otherwise exactly the rows whose
  \<open>item_name\<close> or \<open>location\<close> contains the text without regard to case, newest first
  in both cases.
\<close>

lemma view_items_plain_search:
  assumes "db_up e" and "plain search" and "\<not> has_nul search"
  shows "\<exists>rows. view_items e search w =
                  Inr (TemplateResponse ''items.html'' (Items_Search (map row_dict rows) search))
          \<and> newest_first rows
          \<and> mset rows =
              mset (if search = [] then items w
                    else filter (mentions search) (items w))"
proof (cases "search = []")
  case True
  with assms(1) show ?thesis
    by (auto simp: view_items_def get_connection_def select_items_def
          newest_first_order_by mset_order_by)
next
  case False
  let ?rows = "order_by_created_at_desc
     (filter (mentions search) (items w))"
  from False assms have "view_items e search w =
      Inr (TemplateResponse ''items.html'' (Items_Search (map row_dict ?rows) search))"
    by (simp add: view_items_def get_connection_def select_items_where_plain del: append.simps)
  moreover have "newest_first ?rows" by (rule newest_first_order_by)
  moreover have "mset ?rows = mset (filter (mentions search) (items w))"
    by (rule mset_order_by)
  ultimately show ?thesis using False by auto
qed

lemma sample_filter_wallet:
  "filter (mentions ''wallet'') (items sample_world) = [sample_row 2 ''Black WALLET'' ''Gym'' 30]"
  by code_simp

lemma sample_filter_underscore:
  "filter (mentions ''_'') (items sample_world) = []"
  by code_simp

lemma sample_select_underscore:
  "select_items_where ''%_%'' (items sample_world) =
     Inr [sample_row 2 ''Black WALLET'' ''Gym'' 30, sample_row 3 ''Keys'' ''Hall'' 20,
          sample_row 1 ''ab'' ''cd'' 10]"
  by code_simp

text \<open>
  C5 at the search text \<open>_\<close>: the text goes into the \<open>ILIKE\<close> pattern as it is, the
  underscore is read as "any one character", and the listing holds every row of the
  sample table although no \<open>item_name\<close> and no \<open>location\<close> contains an underscore.
\<close>

theorem view_items_underscore:
  "view_items sample_env ''_'' sample_world =
     Inr (TemplateResponse ''items.html''
       (Items_Search
          (map row_dict [sample_row 2 ''Black WALLET'' ''Gym'' 30, sample_row 3 ''Keys'' ''Hall'' 20,
                         sample_row 1 ''ab'' ''cd'' 10]) ''_''))
   \<and> filter (mentions ''_'') (items sample_world) = []"
  using sample_select_underscore sample_filter_underscore
  by (simp add: view_items_def get_connection_def sample_env_def)

lemma view_items_wallet:
  "db_up sample_env \<and> plain ''wallet''
   \<and> view_items sample_env ''wallet'' sample_world =
       Inr (TemplateResponse ''items.html''
         (Items_Search [row_dict (sample_row 2 ''Black WALLET'' ''Gym'' 30)] ''wallet''))
   \<and> db_up sample_env \<and> plain []
   \<and> (\<exists>rows. view_items sample_env [] sample_world =
         Inr (TemplateResponse ''items.html'' (Items_Search (map row_dict rows) []))
       \<and> newest_first rows \<and> mset rows = mset (items sample_world))"
proof -
  have u: "db_up sample_env" by (simp add: sample_env_def)
  have p: "plain ''wallet''" by (simp add: plain_def)
  have q: "plain []" by (simp add: plain_def)
  have z: "\<not> has_nul ''wallet''" "\<not> has_nul []" by (simp_all add: has_nul_def)
  from view_items_plain_search [OF u p z(1), of sample_world] obtain rows where
    v: "view_items sample_env ''wallet'' sample_world =
          Inr (TemplateResponse ''items.html'' (Items_Search (map row_dict rows) ''wallet''))"
    and m: "mset rows = mset [sample_row 2 ''Black WALLET'' ''Gym'' 30]"
    by (auto simp: sample_filter_wallet)
  from m have "rows = [sample_row 2 ''Black WALLET'' ''Gym'' 30]" by simp
  with v u p q view_items_plain_search [OF u q z(2), of sample_world] show ?thesis by simp
qed

end
